theory Spec2Isabelle
  imports Main
begin

section \<open>JavaScript values\<close>

text \<open>
  The hooks of this package read loosely typed JSON (token claims, profile metadata) and
  branch on truthiness and on \<^verbatim>\<open>??\<close>. The values that can reach those branches are kept
  apart here: \<open>JObj\<close> stands for any object, array or function, whose content no
  branch of the modelled code inspects.
\<close>

datatype jsval = JUndefined | JNull | JBool bool | JNum int | JStr string | JObj

text \<open>A plain data object: its own properties. A property that is absent reads as \<^verbatim>\<open>undefined\<close>.\<close>

type_synonym jsobj = "string \<rightharpoonup> jsval"

definition getProp :: "jsobj \<Rightarrow> string \<Rightarrow> jsval" where
  "getProp obj k = (case obj k of None \<Rightarrow> JUndefined | Some v \<Rightarrow> v)"

fun truthy :: "jsval \<Rightarrow> bool" where
  "truthy JUndefined = False"
| "truthy JNull = False"
| "truthy (JBool b) = b"
| "truthy (JNum n) = (n \<noteq> 0)"
| "truthy (JStr s) = (s \<noteq> [])"
| "truthy JObj = True"

text \<open>\<^verbatim>\<open>a ?? b\<close>: the right operand replaces \<^verbatim>\<open>null\<close> and \<^verbatim>\<open>undefined\<close> only.\<close>

definition nullish :: "jsval \<Rightarrow> bool" where
  "nullish v = (v = JUndefined \<or> v = JNull)"

definition coalesce :: "jsval \<Rightarrow> jsval \<Rightarrow> jsval" where
  "coalesce a b = (if nullish a then b else a)"

section \<open>Application identity (lib/config)\<close>

record AppInfo =
  app :: string
  name :: string

text \<open>The own properties of the object literal \<^verbatim>\<open>APP_CONFIG\<close>, in source order.\<close>

definition APP_CONFIG :: "(string \<times> AppInfo) list" where
  "APP_CONFIG =
    [ (''myrestoevent.com'', \<lparr>app = ''event'', name = ''MyResto Event''\<rparr>),
      (''myrestogarage.com'', \<lparr>app = ''garage'', name = ''MyResto Garage''\<rparr>),
      (''myrestoclub.com'', \<lparr>app = ''club'', name = ''MyResto Club''\<rparr>),
      (''myrestohub.com'', \<lparr>app = ''hub'', name = ''MyResto Hub''\<rparr>),
      (''myrestogear.com'', \<lparr>app = ''gear'', name = ''MyResto Gear''\<rparr>),
      (''myrestoparts.com'', \<lparr>app = ''parts'', name = ''MyResto Parts''\<rparr>),
      (''myrestolife.com'', \<lparr>app = ''life'', name = ''MyResto Life''\<rparr>),
      (''myrestorides.com'', \<lparr>app = ''rides'', name = ''MyResto Rides''\<rparr>),
      (''myrestotrack.com'', \<lparr>app = ''track'', name = ''MyResto Track''\<rparr>),
      (''myrestoplate.com'', \<lparr>app = ''plate'', name = ''MyResto Plate''\<rparr>),
      (''myrestoshow.com'', \<lparr>app = ''show'', name = ''MyResto Show''\<rparr>),
      (''www.myrestoevent.com'', \<lparr>app = ''event'', name = ''MyResto Event''\<rparr>),
      (''www.myrestogarage.com'', \<lparr>app = ''garage'', name = ''MyResto Garage''\<rparr>),
      (''www.myrestoclub.com'', \<lparr>app = ''club'', name = ''MyResto Club''\<rparr>),
      (''www.myrestohub.com'', \<lparr>app = ''hub'', name = ''MyResto Hub''\<rparr>),
      (''www.myrestogear.com'', \<lparr>app = ''gear'', name = ''MyResto Gear''\<rparr>),
      (''www.myrestoparts.com'', \<lparr>app = ''parts'', name = ''MyResto Parts''\<rparr>),
      (''www.myrestolife.com'', \<lparr>app = ''life'', name = ''MyResto Life''\<rparr>),
      (''www.myrestorides.com'', \<lparr>app = ''rides'', name = ''MyResto Rides''\<rparr>),
      (''www.myrestotrack.com'', \<lparr>app = ''track'', name = ''MyResto Track''\<rparr>),
      (''www.myrestoplate.com'', \<lparr>app = ''plate'', name = ''MyResto Plate''\<rparr>),
      (''www.myrestoshow.com'', \<lparr>app = ''show'', name = ''MyResto Show''\<rparr>),
      (''myrestoevent.vercel.app'', \<lparr>app = ''event'', name = ''MyResto Event''\<rparr>),
      (''myrestogarage.vercel.app'', \<lparr>app = ''garage'', name = ''MyResto Garage''\<rparr>),
      (''myrestoclub.vercel.app'', \<lparr>app = ''club'', name = ''MyResto Club''\<rparr>) ]"

text \<open>
  \<^verbatim>\<open>APP_CONFIG\<close> is an ordinary object literal (\<^verbatim>\<open>as const\<close> is a type annotation only), so
  the read \<^verbatim>\<open>APP_CONFIG[hostname]\<close> also finds the properties every object inherits from
  \<^verbatim>\<open>Object.prototype\<close>. These are their names.
\<close>

definition Object_prototype_keys :: "string list" where
  "Object_prototype_keys =
    [ ''constructor'', ''__defineGetter__'', ''__defineSetter__'', ''hasOwnProperty'',
      ''__lookupGetter__'', ''__lookupSetter__'', ''isPrototypeOf'', ''propertyIsEnumerable'',
      ''toString'', ''valueOf'', ''__proto__'', ''toLocaleString'' ]"

text \<open>
  What \<^verbatim>\<open>APP_CONFIG[hostname]\<close> evaluates to: an entry of the table, an inherited
  function or object (truthy, and without an \<^verbatim>\<open>app\<close> property), or \<^verbatim>\<open>undefined\<close>.
\<close>

datatype config_entry = Own AppInfo | Inherited | Missing

definition APP_CONFIG_get :: "string \<Rightarrow> config_entry" where
  "APP_CONFIG_get hostname =
     (case map_of APP_CONFIG hostname of
        Some e \<Rightarrow> Own e
      | None \<Rightarrow> if hostname \<in> set Object_prototype_keys then Inherited else Missing)"

definition isValidAppId :: "string \<Rightarrow> bool" where
  "isValidAppId v =
     (v \<in> set [''event'', ''garage'', ''club'', ''hub'', ''gear'',
               ''parts'', ''life'', ''rides'', ''track'', ''plate'', ''show''])"

text \<open>
  \<^verbatim>\<open>getCurrentApp()\<close>. The first argument is \<^verbatim>\<open>window.location.hostname\<close>, \<open>None\<close>
  where \<^verbatim>\<open>window\<close> is undefined; the second is \<^verbatim>\<open>import.meta.env?.VITE_APP_ID\<close>,
  \<open>None\<close> where it is undefined. The truthiness test \<^verbatim>\<open>if (entry)\<close> passes for a table
  entry and for an inherited property alike; \<^verbatim>\<open>entry.app\<close> of the latter is
  \<^verbatim>\<open>undefined\<close>.
\<close>

definition getCurrentApp :: "string option \<Rightarrow> string option \<Rightarrow> jsval" where
  "getCurrentApp hostname envAppId =
     (case (case hostname of None \<Rightarrow> Missing | Some h \<Rightarrow> APP_CONFIG_get h) of
        Own e \<Rightarrow> JStr (app e)
      | Inherited \<Rightarrow> JUndefined
      | Missing \<Rightarrow>
          (case envAppId of
             None \<Rightarrow> JNull
           | Some v \<Rightarrow> if v \<noteq> [] \<and> isValidAppId v then JStr v else JNull))"

section \<open>Session projection (lib/supabase-auth)\<close>

text \<open>The provider's user record, as far as the projection reads it.\<close>

record User =
  uid :: string
  email :: "string option"
  user_metadata :: "jsobj option"
  app_metadata :: "jsobj option"

record Session =
  user :: User
  access_token :: string

text \<open>The state of \<^verbatim>\<open>AuthProvider\<close>: its two \<^verbatim>\<open>useState\<close> cells.\<close>

record AuthState =
  session :: "Session option"
  isLoaded :: bool

definition AuthState_init :: AuthState where
  "AuthState_init = \<lparr>session = None, isLoaded = False\<rparr>"

text \<open>The object \<^verbatim>\<open>useUser()\<close> returns for a signed-in user.\<close>

record ProjectedUser =
  pid :: string
  emailAddress :: "string option"
  firstName :: jsval
  lastName :: jsval
  fullName :: jsval
  imageUrl :: jsval
  username :: jsval
  publicMetadata :: jsobj

definition orEmpty :: "jsobj option \<Rightarrow> jsobj" where
  "orEmpty m = (case m of None \<Rightarrow> Map.empty | Some obj \<Rightarrow> obj)"

definition dicebear :: "string \<Rightarrow> string" where
  "dicebear i = ''https://api.dicebear.com/7.x/avataaars/svg?seed='' @ i"

definition projectUser :: "User \<Rightarrow> ProjectedUser" where
  "projectUser u =
     (let meta = orEmpty (user_metadata u) in
      \<lparr> pid = uid u,
        emailAddress = email u,
        firstName = coalesce (getProp meta ''first_name'') JNull,
        lastName = coalesce (getProp meta ''last_name'') JNull,
        fullName = coalesce (getProp meta ''full_name'') JNull,
        imageUrl = coalesce (getProp meta ''avatar_url'') (JStr (dicebear (uid u))),
        username = coalesce (getProp meta ''username'') JNull,
        publicMetadata = orEmpty (app_metadata u) \<rparr>)"

text \<open>\<^verbatim>\<open>ctx.user\<close> is \<^verbatim>\<open>session?.user ?? null\<close>; \<^verbatim>\<open>useUser().user\<close> projects it.\<close>

definition useUser :: "AuthState \<Rightarrow> ProjectedUser option" where
  "useUser st = map_option (projectUser \<circ> user) (session st)"

definition isSignedIn :: "AuthState \<Rightarrow> bool" where
  "isSignedIn st = (session st \<noteq> None)"



text \<open>An error object of the provider or of the database client.\<close>

record ClientError =
  message :: string
  code :: string






text \<open>\<^verbatim>\<open>useAuth()\<close> and \<^verbatim>\<open>useUser()\<close> throw outside an \<^verbatim>\<open>AuthProvider\<close>.\<close>

datatype error = MissingAuthProvider

record UseAuthResult =
  auth_isLoaded :: bool
  auth_isSignedIn :: bool
  auth_userId :: "string option"

definition useAuth :: "AuthState option \<Rightarrow> error + UseAuthResult" where
  "useAuth ctx =
     (case ctx of
        None \<Rightarrow> Inl MissingAuthProvider
      | Some st \<Rightarrow>
          Inr \<lparr> auth_isLoaded = isLoaded st,
                auth_isSignedIn = isSignedIn st,
                auth_userId = map_option (uid \<circ> user) (session st) \<rparr>)"

section \<open>The database client\<close>

text \<open>
  A query as the hooks build it: \<^verbatim>\<open>from(table).select(columns)\<close>, one \<^verbatim>\<open>.eq(column, value)\<close>
  per filter, and whether \<^verbatim>\<open>.single()\<close> closes the chain.
\<close>

record Query =
  table :: string
  columns :: string
  filters :: "(string \<times> jsval) list"
  single :: bool

text \<open>What the awaited query hands to the \<^verbatim>\<open>.then\<close> callback: \<^verbatim>\<open>{ data, error }\<close>.\<close>

record 'r Response =
  data :: "'r option"
  error :: "ClientError option"

text \<open>
  The client library is outside this package; this is the part of its documented
  behaviour the callbacks depend on. A request either reaches the table and yields the
  rows that satisfy every filter, or fails in transport. Without \<^verbatim>\<open>.single()\<close> the rows
  are the data. With \<^verbatim>\<open>.single()\<close> the result must be exactly one row, otherwise the
  client returns an error: for no row (or several) one of code \<^verbatim>\<open>PGRST116\<close>, whose
  wording depends on the server's version.
\<close>

datatype 'r fetched = Rows "'r list" | TransportFailure ClientError

definition no_single_row :: ClientError where
  "no_single_row =
     \<lparr>message = ''JSON object requested, multiple (or no) rows returned'', code = ''PGRST116''\<rparr>"

definition respond_many :: "'r fetched \<Rightarrow> 'r list Response" where
  "respond_many f =
     (case f of
        Rows rs \<Rightarrow> \<lparr>data = Some rs, error = None\<rparr>
      | TransportFailure e \<Rightarrow> \<lparr>data = None, error = Some e\<rparr>)"

definition respond_single :: "'r fetched \<Rightarrow> 'r Response" where
  "respond_single f =
     (case f of
        Rows [r] \<Rightarrow> \<lparr>data = Some r, error = None\<rparr>
      | Rows _ \<Rightarrow> \<lparr>data = None, error = Some no_single_row\<rparr>
      | TransportFailure e \<Rightarrow> \<lparr>data = None, error = Some e\<rparr>)"

text \<open>The rows of \<^verbatim>\<open>user_roles\<close> and \<^verbatim>\<open>subscriptions\<close> (interfaces \<^verbatim>\<open>UserRole\<close>, \<^verbatim>\<open>Subscription\<close>).\<close>

record UserRole =
  role_id :: string
  user_id :: string
  role_app :: string
  role :: string
  granted_at :: string
  granted_by :: "string option"

record Subscription =
  sub_id :: string
  sub_user_id :: string
  stripe_subscription_id :: "string option"
  stripe_customer_id :: "string option"
  plan :: string
  status :: string
  current_period_start :: "string option"
  current_period_end :: "string option"
  cancel_at_period_end :: bool

definition UserRole_column :: "UserRole \<Rightarrow> string \<Rightarrow> jsval" where
  "UserRole_column r c =
     (if c = ''id'' then JStr (role_id r)
      else if c = ''user_id'' then JStr (user_id r)
      else if c = ''app'' then JStr (role_app r)
      else if c = ''role'' then JStr (role r)
      else if c = ''granted_at'' then JStr (granted_at r)
      else if c = ''granted_by'' then (case granted_by r of None \<Rightarrow> JNull | Some g \<Rightarrow> JStr g)
      else JUndefined)"

text \<open>
  The table's answer to a role query: the \<^verbatim>\<open>role\<close> column of the rows that satisfy every
  equality filter of the query.
\<close>

definition select_roles :: "UserRole list \<Rightarrow> Query \<Rightarrow> string list" where
  "select_roles store q =
     map role (filter (\<lambda>r. list_all (\<lambda>(c, v). UserRole_column r c = v) (filters q)) store)"

section \<open>Entitlement hooks (lib/authorization)\<close>

definition useIsSuperAdmin :: "ProjectedUser option \<Rightarrow> bool" where
  "useIsSuperAdmin u =
     (case u of
        None \<Rightarrow> False
      | Some p \<Rightarrow> getProp (publicMetadata p) ''role'' = JStr ''super_admin'')"

text \<open>\<^verbatim>\<open>user?.id ?? null\<close>, and the test \<^verbatim>\<open>!userId\<close>, which the empty string passes too.\<close>

definition userId :: "ProjectedUser option \<Rightarrow> string option" where
  "userId u = map_option pid u"

definition noUserId :: "string option \<Rightarrow> bool" where
  "noUserId i = (case i of None \<Rightarrow> True | Some s \<Rightarrow> s = [])"

text \<open>
  What one instance of a data hook holds besides its value cell. React keeps the
  \<^verbatim>\<open>useState\<close> cells and the dependency array of the last effect run; each run of the
  effect body that sends a query creates a closure with its own flag \<^verbatim>\<open>cancelled\<close>, which
  the cleanup function returned by that run sets. Queries are numbered in the order they
  are sent: \<open>issued\<close> lists them, \<open>cancelled\<close> holds the numbers whose flag is set,
  \<open>cleanup\<close> is the number whose flag the pending cleanup function will set, and
  \<open>console\<close> collects the arguments of \<^verbatim>\<open>console.error\<close>.
\<close>

record HookCells =
  loading :: bool
  cleanup :: "nat option"
  cancelled :: "nat set"
  issued :: "Query list"
  console :: "(string \<times> string) list"

record AppRoleState = HookCells +
  roles :: "string list"
  role_deps :: "(string option \<times> jsval \<times> bool) option"

record SubscriptionState = HookCells +
  subscription :: "Subscription option"
  sub_deps :: "string option option"

text \<open>The state of a freshly mounted hook: \<^verbatim>\<open>useState([])\<close>, \<^verbatim>\<open>useState(true)\<close>, no effect run yet.\<close>

definition AppRoleState_init :: AppRoleState where
  "AppRoleState_init =
     \<lparr> loading = True, cleanup = None, cancelled = {}, issued = [], console = [],
       roles = [], role_deps = None \<rparr>"

definition SubscriptionState_init :: SubscriptionState where
  "SubscriptionState_init =
     \<lparr> loading = True, cleanup = None, cancelled = {}, issued = [], console = [],
       subscription = None, sub_deps = None \<rparr>"

text \<open>Before an effect runs again (and at unmount) React calls the cleanup of its last run.\<close>

definition run_cleanup :: "'a HookCells_scheme \<Rightarrow> 'a HookCells_scheme" where
  "run_cleanup s =
     (case cleanup s of
        None \<Rightarrow> s
      | Some q \<Rightarrow> s\<lparr>cancelled := insert q (cancelled s), cleanup := None\<rparr>)"

text \<open>
  Query numbers are positions in \<open>issued\<close>: a flag that is set, and the flag the pending
  cleanup will set, belong to queries already sent, and the latter is not set yet.
\<close>

definition numbered :: "'a HookCells_scheme \<Rightarrow> bool" where
  "numbered s =
     ((\<forall>q \<in> cancelled s. q < length (issued s)) \<and>
      (case cleanup s of None \<Rightarrow> True | Some q \<Rightarrow> q < length (issued s) \<and> q \<notin> cancelled s))"

subsection \<open>useAppRole\<close>

text \<open>\<^verbatim>\<open>const app = appOverride ?? getCurrentApp()\<close>; an omitted override is \<^verbatim>\<open>undefined\<close>.\<close>

definition currentApp :: "jsval \<Rightarrow> string option \<Rightarrow> string option \<Rightarrow> jsval" where
  "currentApp appOverride hostname envAppId =
     coalesce appOverride (getCurrentApp hostname envAppId)"

definition role_query :: "string \<Rightarrow> jsval \<Rightarrow> Query" where
  "role_query i a =
     \<lparr> table = ''user_roles'', columns = ''role'',
       filters = [(''user_id'', JStr i), (''app'', a)], single = False \<rparr>"

text \<open>The effect body of \<^verbatim>\<open>useAppRole\<close>.\<close>

definition useAppRole_effect ::
  "string option \<Rightarrow> jsval \<Rightarrow> bool \<Rightarrow> AppRoleState \<Rightarrow> AppRoleState" where
  "useAppRole_effect i a isSuperAdmin s =
     (if isSuperAdmin then s\<lparr>loading := False\<rparr>
      else if noUserId i \<or> \<not> truthy a then s\<lparr>loading := False, roles := []\<rparr>
      else s\<lparr> loading := True,
              issued := issued s @ [role_query (case i of Some x \<Rightarrow> x | None \<Rightarrow> []) a],
              cleanup := Some (length (issued s)) \<rparr>)"

text \<open>
  After a render is committed React compares the dependency array
  \<^verbatim>\<open>[userId, app, isSuperAdmin, supabase]\<close> with that of the last run (the client is a
  singleton and never changes); when it differs, or on mount, the last cleanup runs and
  then the effect body.
\<close>

definition useAppRole_commit ::
  "string option \<Rightarrow> jsval \<Rightarrow> bool \<Rightarrow> AppRoleState \<Rightarrow> AppRoleState" where
  "useAppRole_commit i a isSuperAdmin s =
     (if role_deps s = Some (i, a, isSuperAdmin) then s
      else useAppRole_effect i a isSuperAdmin
             ((run_cleanup s)\<lparr>role_deps := Some (i, a, isSuperAdmin)\<rparr>))"

text \<open>The \<^verbatim>\<open>.then\<close> callback of query number \<open>q\<close>, called with the client's response.\<close>

definition useAppRole_then :: "nat \<Rightarrow> string list Response \<Rightarrow> AppRoleState \<Rightarrow> AppRoleState" where
  "useAppRole_then q r s =
     (if q \<in> cancelled s then s
      else (case error r of
              Some e \<Rightarrow>
                s\<lparr> console := console s @ [(''[useAppRole]'', message e)],
                   roles := [], loading := False \<rparr>
            | None \<Rightarrow>
                s\<lparr> roles := (case data r of None \<Rightarrow> [] | Some rows \<Rightarrow> rows),
                   loading := False \<rparr>))"

text \<open>
  What the hook returns from a render. It reads the state cells as they are at that
  render; the effect of that render has not run yet.
\<close>

record UseAppRoleResult =
  res_roles :: "string list"
  hasRole :: "string \<Rightarrow> bool"
  res_loading :: bool

definition useAppRole_result :: "bool \<Rightarrow> AppRoleState \<Rightarrow> UseAppRoleResult" where
  "useAppRole_result isSuperAdmin s =
     (if isSuperAdmin
      then \<lparr>res_roles = [''super_admin''], hasRole = (\<lambda>r. True), res_loading = False\<rparr>
      else \<lparr>res_roles = roles s, hasRole = (\<lambda>r. r \<in> set (roles s)), res_loading = loading s\<rparr>)"

text \<open>
  One render of a component that calls \<^verbatim>\<open>useAppRole(appOverride)\<close>: the value the hook
  returns to the component, computed from the state cells as they are, and the state
  once React has committed the render and run its effect. The signed-in user comes from
  the provider's state, the application from the override or the host.
\<close>

definition useAppRole ::
  "AuthState \<Rightarrow> jsval \<Rightarrow> string option \<Rightarrow> string option \<Rightarrow> AppRoleState
     \<Rightarrow> UseAppRoleResult \<times> AppRoleState" where
  "useAppRole st appOverride hostname envAppId s =
     (let u = useUser st;
          isSuperAdmin = useIsSuperAdmin u;
          a = currentApp appOverride hostname envAppId
      in (useAppRole_result isSuperAdmin s, useAppRole_commit (userId u) a isSuperAdmin s))"

subsection \<open>useSubscription\<close>

definition subscription_query :: "string \<Rightarrow> Query" where
  "subscription_query i =
     \<lparr> table = ''subscriptions'', columns = ''*'',
       filters = [(''user_id'', JStr i)], single = True \<rparr>"

definition useSubscription_effect :: "string option \<Rightarrow> SubscriptionState \<Rightarrow> SubscriptionState" where
  "useSubscription_effect i s =
     (if noUserId i then s\<lparr>loading := False, subscription := None\<rparr>
      else s\<lparr> loading := True,
              issued := issued s @ [subscription_query (case i of Some x \<Rightarrow> x | None \<Rightarrow> [])],
              cleanup := Some (length (issued s)) \<rparr>)"

text \<open>The dependency array is \<^verbatim>\<open>[userId, supabase]\<close>.\<close>

definition useSubscription_commit :: "string option \<Rightarrow> SubscriptionState \<Rightarrow> SubscriptionState" where
  "useSubscription_commit i s =
     (if sub_deps s = Some i then s
      else useSubscription_effect i ((run_cleanup s)\<lparr>sub_deps := Some i\<rparr>))"

definition useSubscription_then ::
  "nat \<Rightarrow> Subscription Response \<Rightarrow> SubscriptionState \<Rightarrow> SubscriptionState" where
  "useSubscription_then q r s =
     (if q \<in> cancelled s then s
      else (case error r of
              Some e \<Rightarrow>
                s\<lparr> console := console s @ [(''[useSubscription]'', message e)],
                   subscription := None, loading := False \<rparr>
            | None \<Rightarrow> s\<lparr>subscription := data r, loading := False\<rparr>))"

record UseSubscriptionResult =
  res_plan :: string
  isPro :: bool
  isActive :: bool
  res_subscription :: "Subscription option"
  sub_loading :: bool

definition useSubscription_result :: "bool \<Rightarrow> SubscriptionState \<Rightarrow> UseSubscriptionResult" where
  "useSubscription_result isSuperAdmin s =
     (let plan' = (case subscription s of None \<Rightarrow> ''free'' | Some sub \<Rightarrow> plan sub);
          isActive' = (case subscription s of
                         None \<Rightarrow> False
                       | Some sub \<Rightarrow> status sub = ''active'' \<or> status sub = ''trialing'');
          isPro' = (isSuperAdmin \<or> (plan' = ''pro'' \<and> isActive'))
      in \<lparr> res_plan = plan', isPro = isPro', isActive = isActive',
            res_subscription = subscription s, sub_loading = loading s \<rparr>)"

definition useSubscription ::
  "AuthState \<Rightarrow> SubscriptionState \<Rightarrow> UseSubscriptionResult \<times> SubscriptionState" where
  "useSubscription st s =
     (let u = useUser st
      in (useSubscription_result (useIsSuperAdmin u) s, useSubscription_commit (userId u) s))"

subsection \<open>The states of a mounted hook\<close>

text \<open>
  A hook instance starts in its initial state; from then on its state changes when
  React commits a render (with whatever user and application that render has) and when
  the callback of a query runs (with whatever response the client hands it).
\<close>

inductive AppRole_reachable :: "AppRoleState \<Rightarrow> bool" where
  role_mounted: "AppRole_reachable AppRoleState_init"
| role_committed: "AppRole_reachable s \<Longrightarrow> AppRole_reachable (useAppRole_commit i a b s)"
| role_settled: "AppRole_reachable s \<Longrightarrow> AppRole_reachable (useAppRole_then q r s)"

inductive Subscription_reachable :: "SubscriptionState \<Rightarrow> bool" where
  sub_mounted: "Subscription_reachable SubscriptionState_init"
| sub_committed: "Subscription_reachable s \<Longrightarrow> Subscription_reachable (useSubscription_commit i s)"
| sub_settled: "Subscription_reachable s \<Longrightarrow> Subscription_reachable (useSubscription_then q r s)"

section \<open>Gate components (lib/authorization)\<close>

text \<open>
  A \<^verbatim>\<open>ReactNode\<close> passed as \<^verbatim>\<open>children\<close> or \<^verbatim>\<open>fallback\<close> is \<^verbatim>\<open>null\<close> or some content. A
  gate returns \<^verbatim>\<open>null\<close> or a fragment around one of them; \<open>shown\<close> is what reaches the
  page.
\<close>

datatype 'n ReactNode = Null | Node 'n

datatype 'n rendered = RenderNull | Fragment "'n ReactNode"

fun shown :: "'n rendered \<Rightarrow> 'n list" where
  "shown RenderNull = []"
| "shown (Fragment Null) = []"
| "shown (Fragment (Node n)) = [n]"

text \<open>The default parameter \<^verbatim>\<open>fallback = null\<close>: \<open>None\<close> is a prop the caller left out.\<close>

definition fallback_or_null :: "'n ReactNode option \<Rightarrow> 'n ReactNode" where
  "fallback_or_null f = (case f of None \<Rightarrow> Null | Some n \<Rightarrow> n)"

definition RequireAuth ::
  "'n ReactNode \<Rightarrow> 'n ReactNode option \<Rightarrow> AuthState option \<Rightarrow> error + 'n rendered" where
  "RequireAuth children fallback ctx =
     (case useAuth ctx of
        Inl e \<Rightarrow> Inl e
      | Inr a \<Rightarrow>
          Inr (if \<not> auth_isLoaded a then RenderNull
               else if \<not> auth_isSignedIn a then Fragment (fallback_or_null fallback)
               else Fragment children))"

definition RequirePro ::
  "'n ReactNode \<Rightarrow> 'n ReactNode option \<Rightarrow> UseSubscriptionResult \<Rightarrow> 'n rendered" where
  "RequirePro children fallback sub =
     (if sub_loading sub then RenderNull
      else if \<not> isPro sub then Fragment (fallback_or_null fallback)
      else Fragment children)"

definition RequireRole ::
  "string \<Rightarrow> 'n ReactNode \<Rightarrow> 'n ReactNode option \<Rightarrow> UseAppRoleResult \<Rightarrow> 'n rendered" where
  "RequireRole r children fallback res =
     (if res_loading res then RenderNull
      else if \<not> hasRole res r then Fragment (fallback_or_null fallback)
      else Fragment children)"

section \<open>Example data\<close>

text \<open>
  Data for the scenarios evaluated below: the provider state of a signed-in user
  without the privileged role and of one whose token claims carry it, one row of
  \<^verbatim>\<open>user_roles\<close> and one of \<^verbatim>\<open>subscriptions\<close>.
\<close>

definition member :: "string \<Rightarrow> AuthState" where
  "member i =
     \<lparr> session = Some \<lparr> user = \<lparr> uid = i, email = None, user_metadata = None,
                                  app_metadata = None \<rparr>,
                         access_token = ''token'' \<rparr>,
       isLoaded = True \<rparr>"

definition grant :: "string \<Rightarrow> string \<Rightarrow> string \<Rightarrow> UserRole" where
  "grant i a r =
     \<lparr> role_id = ''1'', user_id = i, role_app = a, role = r,
       granted_at = ''2026-01-01'', granted_by = None \<rparr>"

definition admin :: "string \<Rightarrow> AuthState" where
  "admin i =
     \<lparr> session = Some \<lparr> user = \<lparr> uid = i, email = None, user_metadata = None,
                                  app_metadata = Some [''role'' \<mapsto> JStr ''super_admin''] \<rparr>,
                         access_token = ''token'' \<rparr>,
       isLoaded = True \<rparr>"

definition billed :: "string \<Rightarrow> string \<Rightarrow> string \<Rightarrow> Subscription" where
  "billed i p s =
     \<lparr> sub_id = ''1'', sub_user_id = i, stripe_subscription_id = None,
       stripe_customer_id = None, plan = p, status = s, current_period_start = None,
       current_period_end = None, cancel_at_period_end = False \<rparr>"

section \<open>Properties\<close>

lemma getCurrentApp_own:
  "map_of APP_CONFIG h = Some e \<Longrightarrow> getCurrentApp (Some h) env = JStr (app e)"
  by (simp add: getCurrentApp_def APP_CONFIG_get_def)

lemma getCurrentApp_fallback:
  "map_of APP_CONFIG h = None \<Longrightarrow> h \<notin> set Object_prototype_keys \<Longrightarrow>
   getCurrentApp (Some h) env =
     (case env of None \<Rightarrow> JNull | Some v \<Rightarrow> if isValidAppId v then JStr v else JNull)"
  by (auto simp: getCurrentApp_def APP_CONFIG_get_def isValidAppId_def split: option.splits)

text \<open>
  C9. The documented resolution order (table entry, then a valid \<^verbatim>\<open>VITE_APP_ID\<close>, then
  \<^verbatim>\<open>null\<close>) is what \<open>getCurrentApp_own\<close> and \<open>getCurrentApp_fallback\<close> establish for
  every hostname that is not the name of an inherited object property. On the hostname
  \<^verbatim>\<open>constructor\<close>, which is no key of the table, the lookup finds the inherited
  property: the valid environment value \<^verbatim>\<open>event\<close> is not used, and the result is
  \<^verbatim>\<open>undefined\<close>, neither an application identity nor \<^verbatim>\<open>null\<close>.
\<close>

theorem getCurrentApp_inherited_key:
  "map_of APP_CONFIG ''constructor'' = None
   \<and> isValidAppId ''event''
   \<and> getCurrentApp (Some ''constructor'') (Some ''event'') = JUndefined
   \<and> getCurrentApp (Some ''constructor'') None = JUndefined"
  by (simp add: getCurrentApp_def APP_CONFIG_get_def APP_CONFIG_def
      Object_prototype_keys_def isValidAppId_def)

subsection \<open>Query numbering is an invariant\<close>

lemma numbered_init: "numbered AppRoleState_init" "numbered SubscriptionState_init"
  by (simp_all add: numbered_def AppRoleState_init_def SubscriptionState_init_def)

lemma numbered_role_commit: "numbered s \<Longrightarrow> numbered (useAppRole_commit i a b s)"
  by (auto simp: numbered_def run_cleanup_def useAppRole_commit_def useAppRole_effect_def
      less_Suc_eq split: option.splits)

lemma numbered_role_then: "numbered s \<Longrightarrow> numbered (useAppRole_then q r s)"
  by (auto simp: numbered_def useAppRole_then_def split: option.splits)

lemma numbered_sub_commit: "numbered s \<Longrightarrow> numbered (useSubscription_commit i s)"
  by (auto simp: numbered_def run_cleanup_def useSubscription_commit_def
      useSubscription_effect_def less_Suc_eq split: option.splits)

lemma numbered_sub_then: "numbered s \<Longrightarrow> numbered (useSubscription_then q r s)"
  by (auto simp: numbered_def useSubscription_then_def split: option.splits)

text \<open>Every state a mounted hook can be in is numbered: by induction on how it was reached.\<close>

lemma AppRole_reachable_numbered: "AppRole_reachable s \<Longrightarrow> numbered s"
proof (induction rule: AppRole_reachable.induct)
  case role_mounted
  show ?case by (rule numbered_init(1))
next
  case (role_committed s i a b)
  then show ?case by (simp add: numbered_role_commit)
next
  case (role_settled s q r)
  then show ?case by (simp add: numbered_role_then)
qed

lemma Subscription_reachable_numbered: "Subscription_reachable s \<Longrightarrow> numbered s"
proof (induction rule: Subscription_reachable.induct)
  case sub_mounted
  show ?case by (rule numbered_init(2))
next
  case (sub_committed s i)
  then show ?case by (simp add: numbered_sub_commit)
next
  case (sub_settled s q r)
  then show ?case by (simp add: numbered_sub_then)
qed

subsection \<open>What a commit that sends a query leaves behind\<close>

lemma role_commit_sends:
  assumes "u \<noteq> []" "truthy a" "role_deps s \<noteq> Some (Some u, a, False)" "numbered s"
  shows "issued (useAppRole_commit (Some u) a False s) = issued s @ [role_query u a]"
    and "cleanup (useAppRole_commit (Some u) a False s) = Some (length (issued s))"
    and "cancelled (useAppRole_commit (Some u) a False s)
           = (case cleanup s of None \<Rightarrow> cancelled s | Some q \<Rightarrow> insert q (cancelled s))"
    and "length (issued s) \<notin> cancelled (useAppRole_commit (Some u) a False s)"
    and "roles (useAppRole_commit (Some u) a False s) = roles s"
    and "loading (useAppRole_commit (Some u) a False s)"
    and "console (useAppRole_commit (Some u) a False s) = console s"
    and "role_deps (useAppRole_commit (Some u) a False s) = Some (Some u, a, False)"
  using assms
  by (auto simp: useAppRole_commit_def useAppRole_effect_def run_cleanup_def noUserId_def
      numbered_def split: option.splits)

lemma sub_commit_sends:
  assumes "u \<noteq> []" "sub_deps s \<noteq> Some (Some u)" "numbered s"
  shows "issued (useSubscription_commit (Some u) s) = issued s @ [subscription_query u]"
    and "cleanup (useSubscription_commit (Some u) s) = Some (length (issued s))"
    and "cancelled (useSubscription_commit (Some u) s)
           = (case cleanup s of None \<Rightarrow> cancelled s | Some q \<Rightarrow> insert q (cancelled s))"
    and "length (issued s) \<notin> cancelled (useSubscription_commit (Some u) s)"
    and "subscription (useSubscription_commit (Some u) s) = subscription s"
    and "loading (useSubscription_commit (Some u) s)"
    and "console (useSubscription_commit (Some u) s) = console s"
    and "sub_deps (useSubscription_commit (Some u) s) = Some (Some u)"
  using assms
  by (auto simp: useSubscription_commit_def useSubscription_effect_def run_cleanup_def
      noUserId_def numbered_def split: option.splits)

lemma role_then_cancelled: "q \<in> cancelled s \<Longrightarrow> useAppRole_then q r s = s"
  by (simp add: useAppRole_then_def)

lemma sub_then_cancelled: "q \<in> cancelled s \<Longrightarrow> useSubscription_then q r s = s"
  by (simp add: useSubscription_then_def)

lemma role_then_keeps_flags: "cancelled (useAppRole_then q r s) = cancelled s"
  by (simp add: useAppRole_then_def split: option.splits)

lemma sub_then_keeps_flags: "cancelled (useSubscription_then q r s) = cancelled s"
  by (simp add: useSubscription_then_def split: option.splits)

lemma role_then_keeps_deps: "role_deps (useAppRole_then q r s) = role_deps s"
  by (simp add: useAppRole_then_def split: option.splits)

lemma role_commit_same: "role_deps s = Some (i, a, b) \<Longrightarrow> useAppRole_commit i a b s = s"
  by (simp add: useAppRole_commit_def)

text \<open>
  The role query is scoped by user and application: the table answers it with the roles
  of exactly the rows granted to that user in that application.
\<close>

lemma select_roles_scoped:
  "r \<in> set (select_roles store (role_query u (JStr a)))
     \<longleftrightarrow> (\<exists>g \<in> set store. user_id g = u \<and> role_app g = a \<and> role g = r)"
  by (auto simp: select_roles_def role_query_def UserRole_column_def)

subsection \<open>Session projection\<close>








subsection \<open>Gates\<close>

text \<open>
  C8. Inside an \<^verbatim>\<open>AuthProvider\<close>, \<^verbatim>\<open>RequireAuth\<close> never throws. It returns \<^verbatim>\<open>null\<close>, so
  nothing is shown, while the provider has not loaded; once loaded it returns the
  children when the user is signed in and the fallback otherwise; without a fallback
  prop that is an empty fragment, which shows nothing.
\<close>

theorem RequireAuth_decision:
  "(\<not> isLoaded st \<longrightarrow> RequireAuth c f (Some st) = Inr RenderNull)
   \<and> (isLoaded st \<and> isSignedIn st \<longrightarrow> RequireAuth c f (Some st) = Inr (Fragment c))
   \<and> (isLoaded st \<and> \<not> isSignedIn st \<longrightarrow>
        RequireAuth c f (Some st) = Inr (Fragment (fallback_or_null f)))
   \<and> (\<not> isLoaded st \<longrightarrow> (\<exists>r. RequireAuth c f (Some st) = Inr r \<and> shown r = []))
   \<and> (\<not> (isLoaded st \<and> isSignedIn st) \<longrightarrow>
        (\<exists>r. RequireAuth c None (Some st) = Inr r \<and> shown r = []))"
  by (simp add: RequireAuth_def useAuth_def fallback_or_null_def)

theorem RequireAuth_decision_witness:
  "RequireAuth (Node ''page'') (Some (Node ''sign in'')) (Some AuthState_init) = Inr RenderNull
   \<and> RequireAuth (Node ''page'') (Some (Node ''sign in''))
        (Some \<lparr>session = None, isLoaded = True\<rparr>)
       = Inr (Fragment (Node ''sign in''))
   \<and> RequireAuth (Node ''page'') None (Some \<lparr>session = None, isLoaded = True\<rparr>)
       = Inr (Fragment Null)
   \<and> RequireAuth (Node ''page'') None (Some (member ''u1'')) = Inr (Fragment (Node ''page''))"
  using
    RequireAuth_decision [of AuthState_init "Node ''page''" "Some (Node ''sign in'')"]
    RequireAuth_decision
      [of "\<lparr>session = None, isLoaded = True\<rparr>" "Node ''page''" "Some (Node ''sign in'')"]
    RequireAuth_decision [of "\<lparr>session = None, isLoaded = True\<rparr>" "Node ''page''" None]
    RequireAuth_decision [of "member ''u1''" "Node ''page''" None]
  by (simp add: isSignedIn_def fallback_or_null_def AuthState_init_def member_def)

subsection \<open>Privileged identities\<close>

lemma member_facts:
  "\<not> useIsSuperAdmin (useUser (member i))"
  "userId (useUser (member i)) = Some i"
  by (simp_all add: member_def useUser_def useIsSuperAdmin_def userId_def projectUser_def
      orEmpty_def getProp_def)

lemma admin_facts:
  "useIsSuperAdmin (useUser (admin i))"
  "userId (useUser (admin i)) = Some i"
  by (simp_all add: admin_def useUser_def useIsSuperAdmin_def userId_def projectUser_def
      orEmpty_def getProp_def)

text \<open>
  C5. For an identity whose token claims carry the privileged role, every render of
  \<^verbatim>\<open>useAppRole\<close> returns the roles \<^verbatim>\<open>['super_admin']\<close> with \<open>loading\<close> false and a
  \<open>hasRole\<close> that answers true for every role, whatever the state cells, the
  application and the host are; and the effect of that render sends no query.
\<close>

theorem super_admin_short_circuit:
  assumes "useIsSuperAdmin (useUser st)"
  shows "res_roles (fst (useAppRole st appOverride hostname envAppId s)) = [''super_admin'']
         \<and> res_loading (fst (useAppRole st appOverride hostname envAppId s)) = False
         \<and> (\<forall>r. hasRole (fst (useAppRole st appOverride hostname envAppId s)) r)
         \<and> issued (snd (useAppRole st appOverride hostname envAppId s)) = issued s"
  using assms
  by (simp add: useAppRole_def useAppRole_result_def useAppRole_commit_def
      useAppRole_effect_def run_cleanup_def Let_def split: option.splits)

theorem super_admin_short_circuit_witness:
  "useIsSuperAdmin (useUser (admin ''u1''))
   \<and> res_roles (fst (useAppRole (admin ''u1'') JUndefined (Some ''myrestoevent.com'') None
                       AppRoleState_init)) = [''super_admin'']
   \<and> res_loading (fst (useAppRole (admin ''u1'') JUndefined (Some ''myrestoevent.com'') None
                         AppRoleState_init)) = False
   \<and> hasRole (fst (useAppRole (admin ''u1'') JUndefined (Some ''myrestoevent.com'') None
                     AppRoleState_init)) ''owner''
   \<and> issued (snd (useAppRole (admin ''u1'') JUndefined (Some ''myrestoevent.com'') None
                     AppRoleState_init)) = []"
  using admin_facts(1) [of "''u1''"]
    super_admin_short_circuit [OF admin_facts(1), of "''u1''" JUndefined
      "Some ''myrestoevent.com''" None AppRoleState_init]
  by (simp add: AppRoleState_init_def)

text \<open>
  C4. For an identity with the privileged role \<open>isPro\<close> is true whatever subscription
  the hook holds: none, or one of any plan and status. For every other identity (and
  for no identity) \<open>isPro\<close> is true exactly when a subscription is held whose plan is
  \<^verbatim>\<open>pro\<close> and whose status is \<^verbatim>\<open>active\<close> or \<^verbatim>\<open>trialing\<close>.
\<close>

theorem isPro_precedence:
  "(useIsSuperAdmin (useUser st) \<longrightarrow> isPro (fst (useSubscription st s)))
   \<and> (\<not> useIsSuperAdmin (useUser st) \<longrightarrow>
        isPro (fst (useSubscription st s))
          = (res_plan (fst (useSubscription st s)) = ''pro''
             \<and> (case subscription s of
                  None \<Rightarrow> False
                | Some sub \<Rightarrow> status sub \<in> {''active'', ''trialing''})))
   \<and> res_plan (fst (useSubscription st s))
        = (case subscription s of None \<Rightarrow> ''free'' | Some sub \<Rightarrow> plan sub)"
  by (simp add: useSubscription_def useSubscription_result_def Let_def split: option.splits)

theorem isPro_precedence_witness:
  "isPro (fst (useSubscription (admin ''u1'')
      (SubscriptionState_init\<lparr> loading := False,
                                subscription := Some (billed ''u1'' ''pro'' ''canceled'') \<rparr>)))
   \<and> isPro (fst (useSubscription (admin ''u1'') SubscriptionState_init))
   \<and> \<not> isPro (fst (useSubscription (member ''u4'')
      (SubscriptionState_init\<lparr> loading := False,
                                subscription := Some (billed ''u4'' ''pro'' ''canceled'') \<rparr>)))
   \<and> isPro (fst (useSubscription (member ''u3'')
      (SubscriptionState_init\<lparr> loading := False,
                                subscription := Some (billed ''u3'' ''pro'' ''active'') \<rparr>)))
   \<and> \<not> isPro (fst (useSubscription (member ''u3'') SubscriptionState_init))"
  using
    isPro_precedence [of "admin ''u1''"
      "SubscriptionState_init\<lparr> loading := False,
                                subscription := Some (billed ''u1'' ''pro'' ''canceled'') \<rparr>"]
    isPro_precedence [of "admin ''u1''" SubscriptionState_init]
    isPro_precedence [of "member ''u4''"
      "SubscriptionState_init\<lparr> loading := False,
                                subscription := Some (billed ''u4'' ''pro'' ''canceled'') \<rparr>"]
    isPro_precedence [of "member ''u3''"
      "SubscriptionState_init\<lparr> loading := False,
                                subscription := Some (billed ''u3'' ''pro'' ''active'') \<rparr>"]
    isPro_precedence [of "member ''u3''" SubscriptionState_init]
  by (simp add: admin_facts member_facts SubscriptionState_init_def billed_def)

subsection \<open>Superseded queries\<close>

lemma role_switch:
  assumes "x \<noteq> []" "truthy a" "y \<noteq> []" "truthy b" "(x, a) \<noteq> (y, b)"
    and "role_deps s \<noteq> Some (Some x, a, False)" "numbered s"
  defines "s2 \<equiv> useAppRole_commit (Some y) b False (useAppRole_commit (Some x) a False s)"
  shows "issued s2 = issued s @ [role_query x a, role_query y b]"
    and "length (issued s) \<in> cancelled s2"
    and "Suc (length (issued s)) \<notin> cancelled s2"
proof -
  let ?s1 = "useAppRole_commit (Some x) a False s"
  have n1: "numbered ?s1"
    using assms(7) by (rule numbered_role_commit)
  have d1: "role_deps ?s1 \<noteq> Some (Some y, b, False)"
    using role_commit_sends(8) [OF assms(1,2,6,7)] assms(5) by auto
  have len: "length (issued ?s1) = Suc (length (issued s))"
    using role_commit_sends(1) [OF assms(1,2,6,7)] by simp
  show "issued s2 = issued s @ [role_query x a, role_query y b]"
    unfolding s2_def
    using role_commit_sends(1) [OF assms(3,4) d1 n1] role_commit_sends(1) [OF assms(1,2,6,7)]
    by simp
  show "length (issued s) \<in> cancelled s2"
    unfolding s2_def
    using role_commit_sends(3) [OF assms(3,4) d1 n1] role_commit_sends(2) [OF assms(1,2,6,7)]
    by simp
  show "Suc (length (issued s)) \<notin> cancelled s2"
    unfolding s2_def
    using role_commit_sends(4) [OF assms(3,4) d1 n1] len by simp
qed

lemma sub_switch:
  assumes "x \<noteq> []" "y \<noteq> []" "x \<noteq> y" "sub_deps s \<noteq> Some (Some x)" "numbered s"
  defines "s2 \<equiv> useSubscription_commit (Some y) (useSubscription_commit (Some x) s)"
  shows "issued s2 = issued s @ [subscription_query x, subscription_query y]"
    and "length (issued s) \<in> cancelled s2"
    and "Suc (length (issued s)) \<notin> cancelled s2"
proof -
  let ?s1 = "useSubscription_commit (Some x) s"
  have n1: "numbered ?s1"
    using assms(5) by (rule numbered_sub_commit)
  have d1: "sub_deps ?s1 \<noteq> Some (Some y)"
    using sub_commit_sends(8) [OF assms(1,4,5)] assms(3) by auto
  have len: "length (issued ?s1) = Suc (length (issued s))"
    using sub_commit_sends(1) [OF assms(1,4,5)] by simp
  show "issued s2 = issued s @ [subscription_query x, subscription_query y]"
    unfolding s2_def
    using sub_commit_sends(1) [OF assms(2) d1 n1] sub_commit_sends(1) [OF assms(1,4,5)]
    by simp
  show "length (issued s) \<in> cancelled s2"
    unfolding s2_def
    using sub_commit_sends(3) [OF assms(2) d1 n1] sub_commit_sends(2) [OF assms(1,4,5)]
    by simp
  show "Suc (length (issued s)) \<notin> cancelled s2"
    unfolding s2_def
    using sub_commit_sends(4) [OF assms(2) d1 n1] len by simp
qed

text \<open>
  C6. A hook has sent query A for identity \<open>x\<close> (in application \<open>a\<close>) and then, after
  a switch to identity \<open>y\<close> (or application \<open>b\<close>), query B. Whatever A's response is and
  whether it arrives after B's or before, it changes nothing: the state is the one B's
  response alone produces, with B's roles (B's subscription) and \<open>loading\<close> false. This
  holds for \<^verbatim>\<open>useAppRole\<close> and for \<^verbatim>\<open>useSubscription\<close>, from every state of the hook.
\<close>

theorem superseded_result_discarded:
  assumes "x \<noteq> []" "y \<noteq> []" "truthy a" "truthy b" "(x, a) \<noteq> (y, b)"
    and "role_deps s \<noteq> Some (Some x, a, False)" "numbered s"
    and "x' \<noteq> []" "y' \<noteq> []" "x' \<noteq> y'" "sub_deps t \<noteq> Some (Some x')" "numbered t"
  shows
    "(let A = length (issued s); B = Suc A;
          s2 = useAppRole_commit (Some y) b False (useAppRole_commit (Some x) a False s)
      in issued s2 = issued s @ [role_query x a, role_query y b]
         \<and> useAppRole_then A ra (useAppRole_then B rb s2) = useAppRole_then B rb s2
         \<and> useAppRole_then B rb (useAppRole_then A ra s2) = useAppRole_then B rb s2
         \<and> roles (useAppRole_then B rb s2)
             = (case error rb of
                  Some e \<Rightarrow> []
                | None \<Rightarrow> (case data rb of None \<Rightarrow> [] | Some rows \<Rightarrow> rows))
         \<and> \<not> loading (useAppRole_then B rb s2))
     \<and>
     (let A = length (issued t); B = Suc A;
          t2 = useSubscription_commit (Some y') (useSubscription_commit (Some x') t)
      in issued t2 = issued t @ [subscription_query x', subscription_query y']
         \<and> useSubscription_then A qa (useSubscription_then B qb t2) = useSubscription_then B qb t2
         \<and> useSubscription_then B qb (useSubscription_then A qa t2) = useSubscription_then B qb t2
         \<and> subscription (useSubscription_then B qb t2)
             = (case error qb of Some e \<Rightarrow> None | None \<Rightarrow> data qb)
         \<and> \<not> loading (useSubscription_then B qb t2))"
proof -
  note r = role_switch [OF assms(1,3,2,4,5,6,7)]
  note q = sub_switch [OF assms(8,9,10,11,12)]
  let ?s2 = "useAppRole_commit (Some y) b False (useAppRole_commit (Some x) a False s)"
  let ?t2 = "useSubscription_commit (Some y') (useSubscription_commit (Some x') t)"
  have a1: "useAppRole_then (length (issued s)) ra (useAppRole_then (Suc (length (issued s))) rb ?s2)
              = useAppRole_then (Suc (length (issued s))) rb ?s2"
    by (rule role_then_cancelled) (simp add: role_then_keeps_flags r(2))
  have a2: "useAppRole_then (length (issued s)) ra ?s2 = ?s2"
    by (rule role_then_cancelled) (rule r(2))
  have a3: "roles (useAppRole_then (Suc (length (issued s))) rb ?s2)
             = (case error rb of
                  Some e \<Rightarrow> []
                | None \<Rightarrow> (case data rb of None \<Rightarrow> [] | Some rows \<Rightarrow> rows))"
       "\<not> loading (useAppRole_then (Suc (length (issued s))) rb ?s2)"
    using r(3) by (simp_all add: useAppRole_then_def split: option.splits)
  have b1: "useSubscription_then (length (issued t)) qa
              (useSubscription_then (Suc (length (issued t))) qb ?t2)
              = useSubscription_then (Suc (length (issued t))) qb ?t2"
    by (rule sub_then_cancelled) (simp add: sub_then_keeps_flags q(2))
  have b2: "useSubscription_then (length (issued t)) qa ?t2 = ?t2"
    by (rule sub_then_cancelled) (rule q(2))
  have b3: "subscription (useSubscription_then (Suc (length (issued t))) qb ?t2)
             = (case error qb of Some e \<Rightarrow> None | None \<Rightarrow> data qb)"
       "\<not> loading (useSubscription_then (Suc (length (issued t))) qb ?t2)"
    using q(3) by (simp_all add: useSubscription_then_def split: option.splits)
  show ?thesis
    unfolding Let_def
    using r(1) q(1) a1 a2 a3 b1 b2 b3 by simp
qed

theorem superseded_result_discarded_witness:
  "roles (useAppRole_then 0 (respond_many (Rows [''owner'']))
            (useAppRole_then 1 (respond_many (Rows [''editor'']))
               (useAppRole_commit (Some ''u6'') (JStr ''event'') False
                  (useAppRole_commit (Some ''u5'') (JStr ''event'') False AppRoleState_init))))
     = [''editor'']
   \<and> roles (useAppRole_then 1 (respond_many (Rows [''editor'']))
            (useAppRole_then 0 (respond_many (Rows [''owner'']))
               (useAppRole_commit (Some ''u6'') (JStr ''event'') False
                  (useAppRole_commit (Some ''u5'') (JStr ''event'') False AppRoleState_init))))
     = [''editor'']
   \<and> console (useSubscription_then 0
                (respond_single (TransportFailure \<lparr>message = ''Failed to fetch'', code = ''''\<rparr>))
                (useSubscription_then 1 (respond_single (Rows []))
                   (useSubscription_commit (Some ''u6'')
                      (useSubscription_commit (Some ''u5'') SubscriptionState_init))))
     = [(''[useSubscription]'', ''JSON object requested, multiple (or no) rows returned'')]"
proof -
  have h: "''u5'' \<noteq> []" "''u6'' \<noteq> []" "truthy (JStr ''event'')"
    "(''u5'', JStr ''event'') \<noteq> (''u6'', JStr ''event'')"
    "role_deps AppRoleState_init \<noteq> Some (Some ''u5'', JStr ''event'', False)"
    "''u5'' \<noteq> ''u6''"
    "sub_deps SubscriptionState_init \<noteq> Some (Some ''u5'')"
    by (simp_all add: AppRoleState_init_def SubscriptionState_init_def)
  have i: "issued AppRoleState_init = []" "issued SubscriptionState_init = []"
    by (simp_all add: AppRoleState_init_def SubscriptionState_init_def)
  from superseded_result_discarded
    [OF h(1) h(2) h(3) h(3) h(4) h(5) numbered_init(1) h(1) h(2) h(6) h(7) numbered_init(2),
      of "respond_many (Rows [''owner''])" "respond_many (Rows [''editor''])"
         "respond_single (TransportFailure \<lparr>message = ''Failed to fetch'', code = ''''\<rparr>)"
         "respond_single (Rows [])"]
  have "roles (useAppRole_then 0 (respond_many (Rows [''owner'']))
            (useAppRole_then 1 (respond_many (Rows [''editor'']))
               (useAppRole_commit (Some ''u6'') (JStr ''event'') False
                  (useAppRole_commit (Some ''u5'') (JStr ''event'') False AppRoleState_init))))
     = roles (useAppRole_then 1 (respond_many (Rows [''editor'']))
               (useAppRole_commit (Some ''u6'') (JStr ''event'') False
                  (useAppRole_commit (Some ''u5'') (JStr ''event'') False AppRoleState_init)))"
    and "roles (useAppRole_then 1 (respond_many (Rows [''editor'']))
            (useAppRole_then 0 (respond_many (Rows [''owner'']))
               (useAppRole_commit (Some ''u6'') (JStr ''event'') False
                  (useAppRole_commit (Some ''u5'') (JStr ''event'') False AppRoleState_init))))
     = roles (useAppRole_then 1 (respond_many (Rows [''editor'']))
               (useAppRole_commit (Some ''u6'') (JStr ''event'') False
                  (useAppRole_commit (Some ''u5'') (JStr ''event'') False AppRoleState_init)))"
    and "roles (useAppRole_then 1 (respond_many (Rows [''editor'']))
               (useAppRole_commit (Some ''u6'') (JStr ''event'') False
                  (useAppRole_commit (Some ''u5'') (JStr ''event'') False AppRoleState_init)))
     = [''editor'']"
    and "useSubscription_then 0
                (respond_single (TransportFailure \<lparr>message = ''Failed to fetch'', code = ''''\<rparr>))
                (useSubscription_then 1 (respond_single (Rows []))
                   (useSubscription_commit (Some ''u6'')
                      (useSubscription_commit (Some ''u5'') SubscriptionState_init)))
      = useSubscription_then 1 (respond_single (Rows []))
                   (useSubscription_commit (Some ''u6'')
                      (useSubscription_commit (Some ''u5'') SubscriptionState_init))"
    by (simp_all add: Let_def i respond_many_def)
  moreover have "console (useSubscription_then 1 (respond_single (Rows []))
                   (useSubscription_commit (Some ''u6'')
                      (useSubscription_commit (Some ''u5'') SubscriptionState_init)))
     = [(''[useSubscription]'', ''JSON object requested, multiple (or no) rows returned'')]"
    by (simp add: useSubscription_then_def useSubscription_commit_def useSubscription_effect_def
        run_cleanup_def SubscriptionState_init_def noUserId_def respond_single_def
        no_single_row_def)
  ultimately show ?thesis by simp
qed

subsection \<open>Subscription lookups that find no row\<close>

text \<open>
  C1. The subscription lookup of the signed-in user \<^verbatim>\<open>u1\<close> finds no row: the response
  the \<^verbatim>\<open>.then\<close> callback receives carries the client's error for a result that is not
  exactly one row, and the callback logs it.
\<close>

theorem no_row_is_logged:
  "console (useSubscription_then 0 (respond_single (Rows []))
             (snd (useSubscription (member ''u1'') SubscriptionState_init)))
     = [(''[useSubscription]'', message no_single_row)]"
  by (simp add: useSubscription_def member_facts Let_def useSubscription_then_def
      useSubscription_commit_def useSubscription_effect_def run_cleanup_def
      SubscriptionState_init_def noUserId_def respond_single_def)

text \<open>
  C1, as amended. For every signed-in identity, a lookup that finds no row resolves to
  plan \<^verbatim>\<open>free\<close> with no subscription and \<open>loading\<close> false, and a transport failure
  resolves to the same result; the hook does not tell the two apart: each reaches it as
  an error, and each is logged with its message.
\<close>

theorem subscription_lookup_failures:
  assumes "session st = Some sess" "uid (user sess) = u" "u \<noteq> []"
    and "sub_deps s \<noteq> Some (Some u)" "numbered s"
  shows
    "(let q = length (issued s);
          s1 = snd (useSubscription st s);
          nf = useSubscription_then q (respond_single (Rows [])) s1;
          tf = useSubscription_then q (respond_single (TransportFailure e)) s1
      in issued s1 = issued s @ [subscription_query u]
         \<and> res_plan (fst (useSubscription st nf)) = ''free''
         \<and> res_subscription (fst (useSubscription st nf)) = None
         \<and> \<not> sub_loading (fst (useSubscription st nf))
         \<and> isPro (fst (useSubscription st nf)) = useIsSuperAdmin (useUser st)
         \<and> fst (useSubscription st tf) = fst (useSubscription st nf)
         \<and> console nf = console s @ [(''[useSubscription]'', message no_single_row)]
         \<and> console tf = console s @ [(''[useSubscription]'', message e)])"
proof -
  have uu: "userId (useUser st) = Some u"
    using assms(1,2) by (simp add: userId_def useUser_def projectUser_def Let_def)
  note c = sub_commit_sends [OF assms(3,4,5)]
  have s1: "snd (useSubscription st s) = useSubscription_commit (Some u) s"
    using uu by (simp add: useSubscription_def Let_def)
  have res: "\<And>s'. fst (useSubscription st s')
                 = useSubscription_result (useIsSuperAdmin (useUser st)) s'"
    by (simp add: useSubscription_def Let_def)
  show ?thesis
    unfolding Let_def s1 res
    using c(1) c(4) c(7)
    by (simp add: useSubscription_then_def useSubscription_result_def respond_single_def)
qed

theorem subscription_lookup_failures_witness:
  "res_plan (fst (useSubscription (member ''u1'')
      (useSubscription_then 0 (respond_single (Rows []))
         (snd (useSubscription (member ''u1'') SubscriptionState_init))))) = ''free''
   \<and> \<not> sub_loading (fst (useSubscription (member ''u1'')
      (useSubscription_then 0 (respond_single (Rows []))
         (snd (useSubscription (member ''u1'') SubscriptionState_init)))))
   \<and> console (useSubscription_then 0
        (respond_single (TransportFailure \<lparr>message = ''Failed to fetch'', code = ''''\<rparr>))
        (snd (useSubscription (member ''u1'') SubscriptionState_init)))
      = [(''[useSubscription]'', ''Failed to fetch'')]"
proof -
  have h: "session (member ''u1'')
             = Some \<lparr> user = \<lparr> uid = ''u1'', email = None, user_metadata = None,
                                 app_metadata = None \<rparr>,
                      access_token = ''token'' \<rparr>"
    "uid (user \<lparr> user = \<lparr> uid = ''u1'', email = None, user_metadata = None,
                            app_metadata = None \<rparr>,
                 access_token = ''token'' \<rparr>) = ''u1''"
    "''u1'' \<noteq> []"
    "sub_deps SubscriptionState_init \<noteq> Some (Some ''u1'')"
    by (simp_all add: member_def SubscriptionState_init_def)
  have i: "issued SubscriptionState_init = []" "console SubscriptionState_init = []"
    by (simp_all add: SubscriptionState_init_def)
  show ?thesis
    using subscription_lookup_failures [OF h numbered_init(2), where e =
        "\<lparr>message = ''Failed to fetch'', code = ''''\<rparr>"]
    by (simp add: Let_def i)
qed

subsection \<open>Roles of the previous identity or application\<close>

text \<open>
  C2. User \<^verbatim>\<open>u2\<close> has no role grant and no privileged role. The hook has resolved the
  roles of \<^verbatim>\<open>u1\<close>, an editor, when the session changes to \<^verbatim>\<open>u2\<close>; while the role query
  for \<^verbatim>\<open>u2\<close> is loading, \<open>hasRole\<close> answers true for \<^verbatim>\<open>editor\<close>.
\<close>

theorem stale_roles_while_loading:
  "filter (\<lambda>g. user_id g = ''u2'') [grant ''u1'' ''event'' ''editor''] = []
   \<and> \<not> useIsSuperAdmin (useUser (member ''u2''))
   \<and> res_loading (fst (useAppRole (member ''u2'') JUndefined (Some ''myrestoevent.com'') None
        (snd (useAppRole (member ''u2'') JUndefined (Some ''myrestoevent.com'') None
          (useAppRole_then 0
            (respond_many (Rows (select_roles [grant ''u1'' ''event'' ''editor'']
                                   (role_query ''u1'' (JStr ''event'')))))
            (snd (useAppRole (member ''u1'') JUndefined (Some ''myrestoevent.com'') None
                    AppRoleState_init)))))))
   \<and> hasRole (fst (useAppRole (member ''u2'') JUndefined (Some ''myrestoevent.com'') None
        (snd (useAppRole (member ''u2'') JUndefined (Some ''myrestoevent.com'') None
          (useAppRole_then 0
            (respond_many (Rows (select_roles [grant ''u1'' ''event'' ''editor'']
                                   (role_query ''u1'' (JStr ''event'')))))
            (snd (useAppRole (member ''u1'') JUndefined (Some ''myrestoevent.com'') None
                    AppRoleState_init))))))) ''editor''"
  by (simp add: useAppRole_def member_facts Let_def currentApp_def coalesce_def nullish_def
      getCurrentApp_def APP_CONFIG_get_def APP_CONFIG_def useAppRole_commit_def
      useAppRole_effect_def useAppRole_then_def useAppRole_result_def run_cleanup_def
      AppRoleState_init_def noUserId_def respond_many_def select_roles_def role_query_def
      UserRole_column_def grant_def)

text \<open>
  C2, as amended. For a signed-in identity with no role grant and no privileged role,
  \<open>hasRole\<close> is false for every role once the role query for that identity has settled,
  with the table's answer or with an error; and it is false on the render that sends
  the query and while the query is loading whenever the hook held no roles before (as
  on mount and after sign-out). While the query is loading after a switch from another
  identity or application, \<open>hasRole\<close> still answers from the roles held before.
\<close>

theorem no_grant_no_role:
  assumes "session st = Some sess" "uid (user sess) = u" "u \<noteq> []"
    and "\<not> useIsSuperAdmin (useUser st)"
    and "currentApp appOverride hostname envAppId = JStr a" "a \<noteq> []"
    and "\<forall>g \<in> set store. user_id g \<noteq> u"
    and "role_deps s \<noteq> Some (Some u, JStr a, False)" "numbered s"
  shows
    "(let q = length (issued s);
          s1 = snd (useAppRole st appOverride hostname envAppId s);
          settled = useAppRole_then q (respond_many (Rows (select_roles store (issued s1 ! q)))) s1;
          failed = useAppRole_then q (respond_many (TransportFailure e)) s1
      in issued s1 = issued s @ [role_query u (JStr a)]
         \<and> \<not> res_loading (fst (useAppRole st appOverride hostname envAppId settled))
         \<and> (\<forall>r. \<not> hasRole (fst (useAppRole st appOverride hostname envAppId settled)) r)
         \<and> snd (useAppRole st appOverride hostname envAppId settled) = settled
         \<and> \<not> res_loading (fst (useAppRole st appOverride hostname envAppId failed))
         \<and> (\<forall>r. \<not> hasRole (fst (useAppRole st appOverride hostname envAppId failed)) r)
         \<and> (roles s = [] \<longrightarrow>
              (\<forall>r. \<not> hasRole (fst (useAppRole st appOverride hostname envAppId s)) r)
              \<and> res_loading (fst (useAppRole st appOverride hostname envAppId s1))
              \<and> (\<forall>r. \<not> hasRole (fst (useAppRole st appOverride hostname envAppId s1)) r)))"
proof -
  have uu: "userId (useUser st) = Some u"
    using assms(1,2) by (simp add: userId_def useUser_def projectUser_def Let_def)
  have ta: "truthy (JStr a)"
    using assms(6) by simp
  note c = role_commit_sends [OF assms(3) ta assms(8,9)]
  have s1: "snd (useAppRole st appOverride hostname envAppId s)
              = useAppRole_commit (Some u) (JStr a) False s"
    using assms(4,5) uu by (simp add: useAppRole_def Let_def)
  have res: "\<And>s'. fst (useAppRole st appOverride hostname envAppId s') = useAppRole_result False s'"
    using assms(4) by (simp add: useAppRole_def Let_def)
  have nth: "issued (useAppRole_commit (Some u) (JStr a) False s) ! length (issued s)
               = role_query u (JStr a)"
    using c(1) by simp
  have none: "select_roles store (role_query u (JStr a)) = []"
    using assms(7) by (auto simp: select_roles_def role_query_def UserRole_column_def filter_empty_conv)
  have same: "\<And>r'. snd (useAppRole st appOverride hostname envAppId
                 (useAppRole_then (length (issued s)) r' (useAppRole_commit (Some u) (JStr a) False s)))
               = useAppRole_then (length (issued s)) r' (useAppRole_commit (Some u) (JStr a) False s)"
    using assms(4,5) uu c(8)
    by (simp add: useAppRole_def Let_def role_commit_same role_then_keeps_deps)
  show ?thesis
    unfolding Let_def s1 res nth none same
    using c(1) c(4) c(5) c(6)
    by (simp add: useAppRole_then_def useAppRole_result_def respond_many_def)
qed

theorem no_grant_no_role_witness:
  "\<not> hasRole (fst (useAppRole (member ''u2'') JUndefined (Some ''myrestoevent.com'') None
        (useAppRole_then 0
           (respond_many (Rows (select_roles [grant ''u1'' ''event'' ''editor'']
                                  (role_query ''u2'' (JStr ''event'')))))
           (snd (useAppRole (member ''u2'') JUndefined (Some ''myrestoevent.com'') None
                   AppRoleState_init))))) ''editor''
   \<and> res_loading (fst (useAppRole (member ''u2'') JUndefined (Some ''myrestoevent.com'') None
        (snd (useAppRole (member ''u2'') JUndefined (Some ''myrestoevent.com'') None
                AppRoleState_init))))
   \<and> \<not> hasRole (fst (useAppRole (member ''u2'') JUndefined (Some ''myrestoevent.com'') None
        (snd (useAppRole (member ''u2'') JUndefined (Some ''myrestoevent.com'') None
                AppRoleState_init)))) ''editor''"
proof -
  have h: "session (member ''u2'')
             = Some \<lparr> user = \<lparr> uid = ''u2'', email = None, user_metadata = None,
                                 app_metadata = None \<rparr>,
                      access_token = ''token'' \<rparr>"
    "uid (user \<lparr> user = \<lparr> uid = ''u2'', email = None, user_metadata = None,
                            app_metadata = None \<rparr>,
                 access_token = ''token'' \<rparr>) = ''u2''"
    "''u2'' \<noteq> []"
    "currentApp JUndefined (Some ''myrestoevent.com'') None = JStr ''event''"
    "''event'' \<noteq> []"
    "\<forall>g \<in> set [grant ''u1'' ''event'' ''editor'']. user_id g \<noteq> ''u2''"
    "role_deps AppRoleState_init \<noteq> Some (Some ''u2'', JStr ''event'', False)"
    by (simp_all add: member_def currentApp_def coalesce_def nullish_def getCurrentApp_def
        APP_CONFIG_get_def APP_CONFIG_def grant_def AppRoleState_init_def)
  have i: "issued AppRoleState_init = []" "roles AppRoleState_init = []"
    by (simp_all add: AppRoleState_init_def)
  have q: "issued (snd (useAppRole (member ''u2'') JUndefined (Some ''myrestoevent.com'') None
                   AppRoleState_init)) ! 0 = role_query ''u2'' (JStr ''event'')"
    using no_grant_no_role [OF h(1,2,3) member_facts(1) h(4,5,6,7) numbered_init(1)]
    by (simp add: Let_def i)
  show ?thesis
    using no_grant_no_role [OF h(1,2,3) member_facts(1) h(4,5,6,7) numbered_init(1)] q
    by (simp add: Let_def i)
qed

text \<open>
  C7. User \<^verbatim>\<open>u1\<close> is an editor in application \<^verbatim>\<open>event\<close> and has no grant in
  \<^verbatim>\<open>garage\<close>. A \<^verbatim>\<open>RequireRole\<close> gate for \<^verbatim>\<open>editor\<close> has resolved for \<^verbatim>\<open>event\<close>; its \<open>app\<close>
  prop then changes to \<^verbatim>\<open>garage\<close>. On that render the hook still returns the roles of
  \<^verbatim>\<open>event\<close> with \<open>loading\<close> false, and the gate returns its children. Only the effect
  of that render sends the query for \<^verbatim>\<open>garage\<close>: the next render returns \<^verbatim>\<open>null\<close>, and
  after the query has settled the gate returns the fallback.
\<close>

theorem RequireRole_children_for_other_app:
  "select_roles [grant ''u1'' ''event'' ''editor''] (role_query ''u1'' (JStr ''garage'')) = []
   \<and> RequireRole ''editor'' (Node ''page'') None
       (fst (useAppRole (member ''u1'') (JStr ''garage'') (Some ''myrestoevent.com'') None
          (useAppRole_then 0
             (respond_many (Rows (select_roles [grant ''u1'' ''event'' ''editor'']
                                    (role_query ''u1'' (JStr ''event'')))))
             (snd (useAppRole (member ''u1'') (JStr ''event'') (Some ''myrestoevent.com'') None
                     AppRoleState_init)))))
     = Fragment (Node ''page'')
   \<and> RequireRole ''editor'' (Node ''page'') None
       (fst (useAppRole (member ''u1'') (JStr ''garage'') (Some ''myrestoevent.com'') None
         (snd (useAppRole (member ''u1'') (JStr ''garage'') (Some ''myrestoevent.com'') None
           (useAppRole_then 0
              (respond_many (Rows (select_roles [grant ''u1'' ''event'' ''editor'']
                                     (role_query ''u1'' (JStr ''event'')))))
              (snd (useAppRole (member ''u1'') (JStr ''event'') (Some ''myrestoevent.com'') None
                      AppRoleState_init)))))))
     = RenderNull
   \<and> RequireRole ''editor'' (Node ''page'') None
       (fst (useAppRole (member ''u1'') (JStr ''garage'') (Some ''myrestoevent.com'') None
         (useAppRole_then 1
            (respond_many (Rows (select_roles [grant ''u1'' ''event'' ''editor'']
                                   (role_query ''u1'' (JStr ''garage'')))))
            (snd (useAppRole (member ''u1'') (JStr ''garage'') (Some ''myrestoevent.com'') None
              (useAppRole_then 0
                 (respond_many (Rows (select_roles [grant ''u1'' ''event'' ''editor'']
                                        (role_query ''u1'' (JStr ''event'')))))
                 (snd (useAppRole (member ''u1'') (JStr ''event'') (Some ''myrestoevent.com'') None
                         AppRoleState_init))))))))
     = Fragment Null"
  by (simp add: useAppRole_def member_facts Let_def currentApp_def coalesce_def nullish_def
      useAppRole_commit_def useAppRole_effect_def useAppRole_then_def useAppRole_result_def
      run_cleanup_def AppRoleState_init_def noUserId_def respond_many_def select_roles_def
      role_query_def UserRole_column_def grant_def RequireRole_def fallback_or_null_def)

end
